theory Spec2Isabelle
  imports Complex_Main
begin

section \<open>JavaScript values used by the page script\<close>

text \<open>
  The page script (the front matter of the scatterplot page) reads four CSV tables, groups
  them by id, joins every pit stop with its race, driver and constructor, computes the
  extent of the plotted values and builds the two scales. The model below follows the
  script statement by statement. A thrown \<open>TypeError\<close> is the value \<open>Inl TypeError\<close>;
  \<open>undefined\<close> is \<open>None\<close>.
\<close>

datatype js_error = TypeError

text \<open>
  A JavaScript number: a finite value, one of the two infinities, or NaN. Finite values
  are exact reals here; rounding to the nearest double is monotone and leaves the integers
  of the millisecond range as they are.
\<close>

datatype jsnum = NaN | NegInf | Fin real | PosInf

text \<open>The relational operators \<open><\<close>, \<open>>\<close> and \<open>>=\<close>: every comparison with NaN is false.\<close>

fun jslt :: "jsnum \<Rightarrow> jsnum \<Rightarrow> bool" where
  "jslt NaN b = False"
| "jslt a NaN = False"
| "jslt PosInf b = False"
| "jslt a NegInf = False"
| "jslt NegInf b = True"
| "jslt a PosInf = True"
| "jslt (Fin a) (Fin b) = (a < b)"

definition jsgt :: "jsnum \<Rightarrow> jsnum \<Rightarrow> bool" where
  "jsgt a b = jslt b a"

definition jsge :: "jsnum \<Rightarrow> jsnum \<Rightarrow> bool" where
  "jsge a b = (a \<noteq> NaN \<and> b \<noteq> NaN \<and> \<not> jslt a b)"

text \<open>A parsed CSV row: column name to string; a column the file lacks reads \<open>undefined\<close>.\<close>

type_synonym row = "string \<rightharpoonup> string"

text \<open>\<open>String(v)\<close> for a value that is a string or \<open>undefined\<close>; template literals do the same.\<close>

definition String_js :: "string option \<Rightarrow> string" where
  "String_js v = (case v of None \<Rightarrow> ''undefined'' | Some s \<Rightarrow> s)"

subsection \<open>Number(v): the string-to-number conversion\<close>

definition digit_value :: "char \<Rightarrow> nat option" where
  "digit_value c =
     (let n = (of_char c :: nat) in
      if 48 \<le> n \<and> n \<le> 57 then Some (n - 48)
      else if 97 \<le> n \<and> n \<le> 102 then Some (n - 87)
      else if 65 \<le> n \<and> n \<le> 70 then Some (n - 55)
      else None)"

definition is_digit_in :: "nat \<Rightarrow> char \<Rightarrow> bool" where
  "is_digit_in radix c = (case digit_value c of None \<Rightarrow> False | Some v \<Rightarrow> v < radix)"

definition digits_value :: "nat \<Rightarrow> string \<Rightarrow> nat" where
  "digits_value radix s =
     foldl (\<lambda>a c. case digit_value c of None \<Rightarrow> a | Some v \<Rightarrow> radix * a + v) 0 s"

definition all_digits :: "nat \<Rightarrow> string \<Rightarrow> bool" where
  "all_digits radix s = (s \<noteq> [] \<and> list_all (is_digit_in radix) s)"

text \<open>
  White space stripped by the conversion. A character is a code unit below 256 here; of
  the white space and line terminators that the conversion strips, those are TAB, LF, VT,
  FF, CR, SP and NBSP.
\<close>

definition is_ws :: "char \<Rightarrow> bool" where
  "is_ws c = ((of_char c :: nat) \<in> {9, 10, 11, 12, 13, 32, 160})"

definition trim_ws :: "string \<Rightarrow> string" where
  "trim_ws s = rev (dropWhile is_ws (rev (dropWhile is_ws s)))"

definition jsneg :: "jsnum \<Rightarrow> jsnum" where
  "jsneg a = (case a of NaN \<Rightarrow> NaN | NegInf \<Rightarrow> PosInf | PosInf \<Rightarrow> NegInf | Fin r \<Rightarrow> Fin (- r))"

text \<open>The exponent part \<open>e\<close>/\<open>E\<close>, optional sign, digits: \<open>None\<close> when malformed.\<close>

definition exponent_part :: "string \<Rightarrow> int option" where
  "exponent_part s =
     (case s of
        [] \<Rightarrow> Some 0
      | c # t \<Rightarrow>
          if c = CHR ''e'' \<or> c = CHR ''E'' then
            (case t of
               [] \<Rightarrow> None
             | d # u \<Rightarrow>
                 if d = CHR ''-'' then
                   (if all_digits 10 u then Some (- int (digits_value 10 u)) else None)
                 else if d = CHR ''+'' then
                   (if all_digits 10 u then Some (int (digits_value 10 u)) else None)
                 else (if all_digits 10 t then Some (int (digits_value 10 t)) else None))
          else None)"

definition scale10 :: "real \<Rightarrow> int \<Rightarrow> real" where
  "scale10 m e = (if e < 0 then m / 10 ^ nat (- e) else m * 10 ^ nat e)"

text \<open>
  An unsigned decimal literal: \<open>Infinity\<close>, \<open>digits [. [digits]] [exponent]\<close> or
  \<open>. digits [exponent]\<close>. Anything else is NaN.
\<close>

definition unsigned_decimal :: "string \<Rightarrow> jsnum" where
  "unsigned_decimal s =
     (if s = ''Infinity'' then PosInf
      else
        let ip = takeWhile (is_digit_in 10) s;
            r1 = dropWhile (is_digit_in 10) s;
            fp = (case r1 of [] \<Rightarrow> [] | c # t \<Rightarrow>
                    if c = CHR ''.'' then takeWhile (is_digit_in 10) t else []);
            r2 = (case r1 of [] \<Rightarrow> [] | c # t \<Rightarrow>
                    if c = CHR ''.'' then dropWhile (is_digit_in 10) t else r1)
        in if ip = [] \<and> fp = [] then NaN
           else (case exponent_part r2 of
                   None \<Rightarrow> NaN
                 | Some e \<Rightarrow>
                     Fin (scale10 (real (digits_value 10 ip)
                                   + real (digits_value 10 fp) / 10 ^ length fp) e)))"

definition signed_decimal :: "string \<Rightarrow> jsnum" where
  "signed_decimal s =
     (case s of
        [] \<Rightarrow> NaN
      | c # t \<Rightarrow>
          if c = CHR ''-'' then jsneg (unsigned_decimal t)
          else if c = CHR ''+'' then unsigned_decimal t
          else unsigned_decimal s)"

text \<open>The literals \<open>0x\<close>, \<open>0o\<close>, \<open>0b\<close> (either case) give the radix; they take no sign.\<close>

definition radix_prefix :: "string \<Rightarrow> nat option" where
  "radix_prefix s =
     (case s of
        c # p # t \<Rightarrow>
          if c = CHR ''0'' then
            (if p = CHR ''x'' \<or> p = CHR ''X'' then Some 16
             else if p = CHR ''o'' \<or> p = CHR ''O'' then Some 8
             else if p = CHR ''b'' \<or> p = CHR ''B'' then Some 2
             else None)
          else None
      | _ \<Rightarrow> None)"

definition Number_js :: "string option \<Rightarrow> jsnum" where
  "Number_js v =
     (case v of
        None \<Rightarrow> NaN
      | Some s \<Rightarrow>
          let t = trim_ws s in
          if t = [] then Fin 0
          else (case radix_prefix t of
                  Some radix \<Rightarrow>
                    if all_digits radix (drop 2 t)
                    then Fin (real (digits_value radix (drop 2 t))) else NaN
                | None \<Rightarrow> signed_decimal t))"

section \<open>Grouping the lookup tables\<close>

text \<open>
  \<open>group\<close> is imported from the d3-array library and is modelled by its documented
  behaviour: \<open>group(rows, key)\<close> walks the rows in order; a row joins the array stored
  under its key, or starts a new one. The result is an \<open>InternMap\<close>, a \<open>Map\<close>, and
  \<open>get\<close> of a key that was never stored is \<open>undefined\<close>.
\<close>

type_synonym 'v intern_map = "string \<rightharpoonup> 'v"

definition group_add :: "('a \<Rightarrow> string) \<Rightarrow> 'a list intern_map \<Rightarrow> 'a \<Rightarrow> 'a list intern_map" where
  "group_add keyof groups v =
     (case groups (keyof v) of
        Some g \<Rightarrow> groups(keyof v \<mapsto> g @ [v])
      | None \<Rightarrow> groups(keyof v \<mapsto> [v]))"

definition group1 :: "'a list \<Rightarrow> ('a \<Rightarrow> string) \<Rightarrow> 'a list intern_map" where
  "group1 vs keyof = foldl (group_add keyof) Map.empty vs"

text \<open>With two keys every group of the first level is grouped again by the second key.\<close>

definition group2 ::
  "'a list \<Rightarrow> ('a \<Rightarrow> string) \<Rightarrow> ('a \<Rightarrow> string) \<Rightarrow> 'a list intern_map intern_map" where
  "group2 vs keyof1 keyof2 = (\<lambda>k. map_option (\<lambda>g. group1 g keyof2) (group1 vs keyof1 k))"

text \<open>\<open>m.get(k)\<close> where the key itself may be \<open>undefined\<close>: no group is stored under it.\<close>

definition map_get :: "'v intern_map \<Rightarrow> string option \<Rightarrow> 'v option" where
  "map_get m k = (case k of None \<Rightarrow> None | Some s \<Rightarrow> m s)"

text \<open>\<open>a[0]\<close> on an array: \<open>undefined\<close> when the array is empty.\<close>

definition index0 :: "'a list \<Rightarrow> 'a option" where
  "index0 a = (case a of [] \<Rightarrow> None | v # _ \<Rightarrow> Some v)"

record tables =
  races :: "row list intern_map"
  drivers :: "row list intern_map"
  constructors :: "row list intern_map"
  results :: "row list intern_map intern_map"

definition load_tables :: "row list \<Rightarrow> row list \<Rightarrow> row list \<Rightarrow> row list \<Rightarrow> tables" where
  "load_tables races_csv drivers_csv constructors_csv results_csv =
     \<lparr> races = group1 races_csv (\<lambda>d. String_js (d ''raceId'')),
       drivers = group1 drivers_csv (\<lambda>d. String_js (d ''driverId'')),
       constructors = group1 constructors_csv (\<lambda>d. String_js (d ''constructorId'')),
       results = group2 results_csv (\<lambda>d. String_js (d ''raceId''))
                                    (\<lambda>d. String_js (d ''driverId'')) \<rparr>"

section \<open>Resolving the relations of a pit stop\<close>

text \<open>
  \<open>getRace\<close> and \<open>getDriver\<close> index the looked-up group directly: when the key is
  absent the group is \<open>undefined\<close> and reading \<open>[0]\<close> of it throws.
\<close>

definition getRace :: "tables \<Rightarrow> string \<Rightarrow> js_error + row option" where
  "getRace T raceId =
     (case races T raceId of None \<Rightarrow> Inl TypeError | Some g \<Rightarrow> Inr (index0 g))"

definition getDriver :: "tables \<Rightarrow> string \<Rightarrow> js_error + row option" where
  "getDriver T driverId =
     (case drivers T driverId of None \<Rightarrow> Inl TypeError | Some g \<Rightarrow> Inr (index0 g))"

text \<open>
  The constructor id is read through \<open>results.get(raceId)?.get(driverId)[0].constructorId\<close>.
  The \<open>?.\<close> ends the whole chain with \<open>undefined\<close> when the race has no results; the
  later steps are plain accesses and throw on \<open>undefined\<close>.
\<close>

definition result_constructorId :: "tables \<Rightarrow> string \<Rightarrow> string \<Rightarrow> js_error + string option" where
  "result_constructorId T raceId driverId =
     (case results T raceId of
        None \<Rightarrow> Inr None
      | Some by_driver \<Rightarrow>
          (case by_driver driverId of
             None \<Rightarrow> Inl TypeError
           | Some g \<Rightarrow>
               (case index0 g of
                  None \<Rightarrow> Inl TypeError
                | Some res \<Rightarrow> Inr (res ''constructorId''))))"

definition getContructor :: "tables \<Rightarrow> string \<Rightarrow> string \<Rightarrow> js_error + row option" where
  "getContructor T raceId driverId =
     (case result_constructorId T raceId driverId of
        Inl e \<Rightarrow> Inl e
      | Inr cid \<Rightarrow>
          (case map_get (constructors T) cid of
             None \<Rightarrow> Inl TypeError
           | Some g \<Rightarrow> Inr (index0 g)))"

section \<open>Building the observations\<close>

text \<open>\<open>new Date(v)\<close>: the object is kept with the argument it was built from.\<close>

datatype jsdate = NewDate "string option"

record observation =
  obs_y :: jsnum
  obs_x :: jsdate
  obs_race :: "string option"
  obs_driver :: string
  obs_constructor :: "string option"
  obs_lap :: "string option"

text \<open>\<open>r?.f\<close> on a row that may be \<open>undefined\<close>.\<close>

definition opt_field :: "row option \<Rightarrow> string \<Rightarrow> string option" where
  "opt_field r f = (case r of None \<Rightarrow> None | Some d \<Rightarrow> d f)"

text \<open>The filter predicate of \<open>data\<close>.\<close>

definition keep :: "row \<Rightarrow> bool" where
  "keep d = jslt (Number_js (d ''milliseconds'')) (Fin 120000)"

text \<open>
  The function mapped over the retained pit stops. The driver label reads
  \<open>driver?.forename\<close> and then \<open>driver.surname\<close>; the second access throws when the
  driver is \<open>undefined\<close>.
\<close>

definition observe :: "tables \<Rightarrow> row \<Rightarrow> js_error + observation" where
  "observe T d =
     (case getRace T (String_js (d ''raceId'')) of
        Inl e \<Rightarrow> Inl e
      | Inr race \<Rightarrow>
     (case getDriver T (String_js (d ''driverId'')) of
        Inl e \<Rightarrow> Inl e
      | Inr driver \<Rightarrow>
     (case getContructor T (String_js (d ''raceId'')) (String_js (d ''driverId'')) of
        Inl e \<Rightarrow> Inl e
      | Inr constructor \<Rightarrow>
     (case driver of
        None \<Rightarrow> Inl TypeError
      | Some drv \<Rightarrow>
          Inr \<lparr> obs_y = Number_js (d ''milliseconds''),
                obs_x = NewDate (opt_field race ''date''),
                obs_race = opt_field race ''name'',
                obs_driver = String_js (opt_field driver ''forename'') @ '' ''
                             @ String_js (drv ''surname''),
                obs_constructor = opt_field constructor ''name'',
                obs_lap = d ''lap'' \<rparr>))))"

text \<open>\<open>Array.prototype.map\<close> with a callback that may throw: the first throw ends it.\<close>

fun map_js :: "('a \<Rightarrow> js_error + 'b) \<Rightarrow> 'a list \<Rightarrow> js_error + 'b list" where
  "map_js f [] = Inr []"
| "map_js f (v # vs) =
     (case f v of
        Inl e \<Rightarrow> Inl e
      | Inr w \<Rightarrow> (case map_js f vs of Inl e \<Rightarrow> Inl e | Inr ws \<Rightarrow> Inr (w # ws)))"

definition data :: "tables \<Rightarrow> row list \<Rightarrow> js_error + observation list" where
  "data T pitstops = map_js (observe T) (filter keep pitstops)"

section \<open>The domain of the plot\<close>

text \<open>
  A Date compares through its time value, which is NaN for an invalid date.
  \<open>new Date(undefined)\<close> is always invalid; for a string the time value is what the host's
  \<open>Date.parse\<close> gives, so the functions that compare dates take that parser as an argument.
\<close>

definition timeValue :: "(string \<Rightarrow> jsnum) \<Rightarrow> jsdate \<Rightarrow> jsnum" where
  "timeValue parse d = (case d of NewDate None \<Rightarrow> NaN | NewDate (Some s) \<Rightarrow> parse s)"

text \<open>
  \<open>minIndex(values, valueof)\<close> and \<open>maxIndex(values, valueof)\<close>, also from d3-array and
  modelled by their documented behaviour: one pass that keeps the best value seen and its
  index. The first value taken is the first one with \<open>value >= value\<close>, which NaN
  fails; a later value is taken when it is strictly better; the result is \<open>-1\<close> when
  no value is comparable.
\<close>

fun minIndex_loop :: "('a \<Rightarrow> jsnum) \<Rightarrow> 'a list \<Rightarrow> jsnum option \<Rightarrow> int \<Rightarrow> int \<Rightarrow> int" where
  "minIndex_loop valueof [] best bestIndex index = bestIndex"
| "minIndex_loop valueof (v # vs) best bestIndex index =
     (if (case best of None \<Rightarrow> jsge (valueof v) (valueof v) | Some m \<Rightarrow> jsgt m (valueof v))
      then minIndex_loop valueof vs (Some (valueof v)) (index + 1) (index + 1)
      else minIndex_loop valueof vs best bestIndex (index + 1))"

definition minIndex :: "'a list \<Rightarrow> ('a \<Rightarrow> jsnum) \<Rightarrow> int" where
  "minIndex values valueof = minIndex_loop valueof values None (- 1) (- 1)"

fun maxIndex_loop :: "('a \<Rightarrow> jsnum) \<Rightarrow> 'a list \<Rightarrow> jsnum option \<Rightarrow> int \<Rightarrow> int \<Rightarrow> int" where
  "maxIndex_loop valueof [] best bestIndex index = bestIndex"
| "maxIndex_loop valueof (v # vs) best bestIndex index =
     (if (case best of None \<Rightarrow> jsge (valueof v) (valueof v) | Some m \<Rightarrow> jslt m (valueof v))
      then maxIndex_loop valueof vs (Some (valueof v)) (index + 1) (index + 1)
      else maxIndex_loop valueof vs best bestIndex (index + 1))"

definition maxIndex :: "'a list \<Rightarrow> ('a \<Rightarrow> jsnum) \<Rightarrow> int" where
  "maxIndex values valueof = maxIndex_loop valueof values None (- 1) (- 1)"

text \<open>\<open>a[i]\<close> for an integer index: \<open>undefined\<close> outside the array, so also at \<open>-1\<close>.\<close>

definition at_index :: "'a list \<Rightarrow> int \<Rightarrow> 'a option" where
  "at_index a i = (if 0 \<le> i \<and> i < int (length a) then Some (a ! nat i) else None)"

record extent =
  minX :: "observation option"
  maxX :: "observation option"
  minY :: "observation option"
  maxY :: "observation option"

definition extent_of :: "(string \<Rightarrow> jsnum) \<Rightarrow> observation list \<Rightarrow> extent" where
  "extent_of parse obs =
     \<lparr> minX = at_index obs (minIndex obs (\<lambda>d. timeValue parse (obs_x d))),
       maxX = at_index obs (maxIndex obs (\<lambda>d. timeValue parse (obs_x d))),
       minY = at_index obs (minIndex obs obs_y),
       maxY = at_index obs (maxIndex obs obs_y) \<rparr>"

record domain_t =
  dom_x :: "jsdate list"
  dom_y :: "jsnum list"

text \<open>
  The domain literal reads \<open>minX.x\<close>, \<open>maxX.x\<close>, \<open>minY.y\<close> and \<open>maxY.y\<close>; each read throws
  when its element is \<open>undefined\<close>.
\<close>

definition domain :: "(string \<Rightarrow> jsnum) \<Rightarrow> observation list \<Rightarrow> js_error + domain_t" where
  "domain parse obs =
     (let e = extent_of parse obs in
      (case minX e of None \<Rightarrow> Inl TypeError | Some a \<Rightarrow>
      (case maxX e of None \<Rightarrow> Inl TypeError | Some b \<Rightarrow>
      (case minY e of None \<Rightarrow> Inl TypeError | Some c \<Rightarrow>
      (case maxY e of None \<Rightarrow> Inl TypeError | Some d \<Rightarrow>
         Inr \<lparr> dom_x = [obs_x a, obs_x b], dom_y = [obs_y c, obs_y d] \<rparr>)))))"

section \<open>The range, the axes and the dots\<close>

record margin_t =
  top :: real
  right :: real
  bottom :: real
  left :: real

definition margin :: margin_t where
  "margin = \<lparr> top = 20, right = 20, bottom = 20, left = 60 \<rparr>"

definition width :: real where
  "width = 800"

definition innerWidth :: real where
  "innerWidth = width - right margin - left margin"

definition height :: real where
  "height = 500"

definition innerHeight :: real where
  "innerHeight = height - top margin - bottom margin"

record range_t =
  range_x :: "real list"
  range_y :: "real list"

definition range0 :: range_t where
  "range0 = \<lparr> range_x = [0, innerWidth], range_y = [0, innerHeight] \<rparr>"

text \<open>
  \<open>xScale\<close> and \<open>yScale\<close> hand their two arrays to a library scale, which copies them.
  A scale is kept here as the pair of arrays it was built from.
\<close>

record 'd scale_t =
  scale_domain :: "'d list"
  scale_range :: "real list"

definition xScale :: "jsdate list \<Rightarrow> real list \<Rightarrow> jsdate scale_t" where
  "xScale dm rg = \<lparr> scale_domain = dm, scale_range = rg \<rparr>"

definition yScale :: "jsnum list \<Rightarrow> real list \<Rightarrow> jsnum scale_t" where
  "yScale dm rg = \<lparr> scale_domain = dm, scale_range = rg \<rparr>"

text \<open>The variables of the script that later statements read.\<close>

record script_state =
  st_tables :: tables
  st_data :: "observation list"
  st_domain :: domain_t
  st_range :: range_t

record axes_t =
  xAxis :: "jsdate scale_t"
  yAxis :: "jsnum scale_t"

text \<open>
  Defining the axes. \<open>range.y.reverse()\<close> reverses the array held by \<open>range.y\<close> in place
  and returns that same array, so the variable holds the reversed array afterwards.
\<close>

definition define_axes :: "script_state \<Rightarrow> axes_t \<times> script_state" where
  "define_axes s =
     (let xa = xScale (dom_x (st_domain s)) (range_x (st_range s));
          reversed = rev (range_y (st_range s));
          s' = s\<lparr> st_range := (st_range s)\<lparr> range_y := reversed \<rparr> \<rparr>;
          ya = yScale (dom_y (st_domain s)) reversed
      in (\<lparr> xAxis = xa, yAxis = ya \<rparr>, s'))"

text \<open>
  A dot: for each coordinate the scale built for it and the value the scale is applied to.
  The title text appended to each dot formats \<open>d.y\<close> for display and reads no range; it
  is not part of the model.
\<close>

record dot =
  cx_scale :: "jsdate scale_t"
  cx_arg :: jsdate
  cy_scale :: "jsnum scale_t"
  cy_arg :: jsnum

definition draw_dots :: "script_state \<Rightarrow> dot list \<times> script_state" where
  "draw_dots s =
     (map (\<lambda>d. \<lparr> cx_scale = xScale (dom_x (st_domain s)) (range_x (st_range s)),
                 cx_arg = obs_x d,
                 cy_scale = yScale (dom_y (st_domain s)) (range_y (st_range s)),
                 cy_arg = obs_y d \<rparr>) (st_data s), s)"

text \<open>The script from the loaded tables to the coordinates of the dots.\<close>

definition script ::
  "(string \<Rightarrow> jsnum) \<Rightarrow> tables \<Rightarrow> row list \<Rightarrow> js_error + (axes_t \<times> dot list \<times> script_state)" where
  "script parse T pitstops =
     (case data T pitstops of
        Inl e \<Rightarrow> Inl e
      | Inr obs \<Rightarrow>
          (case domain parse obs of
             Inl e \<Rightarrow> Inl e
           | Inr dm \<Rightarrow>
               (let s0 = \<lparr> st_tables = T, st_data = obs, st_domain = dm, st_range = range0 \<rparr>;
                    (axes, s1) = define_axes s0;
                    (dots, s2) = draw_dots s1
                in Inr (axes, dots, s2))))"

section \<open>The linear scale\<close>

text \<open>
  Modelled from the spec: \<open>scaleLinear\<close>, which \<open>yScale\<close> configures, comes from a library
  that is not among the sources. The spec's \<open>makeLinear\<close> maps the domain interval onto the
  range interval by affine interpolation, after a nice step that may widen the domain; the
  widened domain is the one the mapping uses. The nice step is an argument here.
\<close>

record linear_scale =
  lin_domain :: "real \<times> real"
  lin_range :: "real \<times> real"

definition makeLinear ::
  "(real \<times> real \<Rightarrow> real \<times> real) \<Rightarrow> real \<times> real \<Rightarrow> real \<times> real \<Rightarrow> linear_scale" where
  "makeLinear nice dm rg = \<lparr> lin_domain = nice dm, lin_range = rg \<rparr>"

text \<open>
  Modelled from the spec: applying the scale. Values outside the domain extrapolate. The
  spec is silent on a domain of one point; the model maps it to the start of the range.
\<close>

definition apply_linear :: "linear_scale \<Rightarrow> real \<Rightarrow> real" where
  "apply_linear sc v =
     (let d0 = fst (lin_domain sc); d1 = snd (lin_domain sc);
          r0 = fst (lin_range sc); r1 = snd (lin_range sc)
      in if d1 = d0 then r0 else r0 + (v - d0) / (d1 - d0) * (r1 - r0))"

text \<open>Modelled from the spec: the scale as configured, with no nice step applied.\<close>

definition un_niced :: "real \<times> real \<Rightarrow> real \<times> real" where
  "un_niced dm = dm"

text \<open>
  Modelled from the spec: the nice step expands the domain outward to the nearest round
  step. How the step is chosen is not said, so it is an argument: the lower boundary goes
  down and the upper boundary goes up to the nearest multiple of the step.
\<close>

definition nice_to :: "real \<Rightarrow> real \<times> real \<Rightarrow> real \<times> real" where
  "nice_to step dm =
     (of_int \<lfloor>fst dm / step\<rfloor> * step, of_int \<lceil>snd dm / step\<rceil> * step)"

section \<open>A date parser for the examples\<close>

text \<open>
  The date-only form \<open>YYYY-MM-DD\<close> of the date-time string format denotes midnight UTC of
  that day. This instance of \<open>Date.parse\<close> reads that form only; what a host makes of other
  strings is left to it, which is why the general results hold for every parser.
\<close>

definition days_in_month :: "int \<Rightarrow> int \<Rightarrow> int" where
  "days_in_month y m =
     (if m = 2 then (if y mod 4 = 0 \<and> (y mod 100 \<noteq> 0 \<or> y mod 400 = 0) then 29 else 28)
      else if m = 4 \<or> m = 6 \<or> m = 9 \<or> m = 11 then 30 else 31)"

definition days_from_epoch :: "int \<Rightarrow> int \<Rightarrow> int \<Rightarrow> int" where
  "days_from_epoch y m d =
     (let y' = (if m \<le> 2 then y - 1 else y);
          era = y' div 400;
          yoe = y' - era * 400;
          doy = (153 * ((m + 9) mod 12) + 2) div 5 + d - 1;
          doe = yoe * 365 + yoe div 4 - yoe div 100 + doy
      in era * 146097 + doe - 719468)"

definition Date_parse_ymd :: "string \<Rightarrow> jsnum" where
  "Date_parse_ymd s =
     (if length s = 10 \<and> s ! 4 = CHR ''-'' \<and> s ! 7 = CHR ''-''
         \<and> all_digits 10 (take 4 s) \<and> all_digits 10 (take 2 (drop 5 s))
         \<and> all_digits 10 (drop 8 s)
      then
        (let y = int (digits_value 10 (take 4 s));
             m = int (digits_value 10 (take 2 (drop 5 s)));
             d = int (digits_value 10 (drop 8 s))
         in if 1 \<le> m \<and> m \<le> 12 \<and> 1 \<le> d \<and> d \<le> days_in_month y m
            then Fin (of_int (days_from_epoch y m d * 86400000)) else NaN)
      else NaN)"

section \<open>Example tables\<close>

definition race_GP :: row where
  "race_GP = [''raceId'' \<mapsto> ''1'', ''name'' \<mapsto> ''GP'', ''date'' \<mapsto> ''2020-01-01'']"

definition driver_AB :: row where
  "driver_AB = [''driverId'' \<mapsto> ''10'', ''forename'' \<mapsto> ''A'', ''surname'' \<mapsto> ''B'']"

definition result_1_10 :: row where
  "result_1_10 = [''raceId'' \<mapsto> ''1'', ''driverId'' \<mapsto> ''10'', ''constructorId'' \<mapsto> ''99'']"

definition constructor_Team :: row where
  "constructor_Team = [''constructorId'' \<mapsto> ''99'', ''name'' \<mapsto> ''Team'']"

definition example_tables :: tables where
  "example_tables = load_tables [race_GP] [driver_AB] [constructor_Team] [result_1_10]"

definition pitstop_1_10 :: row where
  "pitstop_1_10 =
     [''raceId'' \<mapsto> ''1'', ''driverId'' \<mapsto> ''10'', ''milliseconds'' \<mapsto> ''21345'',
      ''lap'' \<mapsto> ''5'']"

definition observation_1_10 :: observation where
  "observation_1_10 =
     \<lparr> obs_y = Fin 21345, obs_x = NewDate (Some ''2020-01-01''), obs_race = Some ''GP'',
       obs_driver = ''A B'', obs_constructor = Some ''Team'', obs_lap = Some ''5'' \<rparr>"

text \<open>Pit stops whose race and driver, or whose driver only, are in no table.\<close>

definition pitstop_7_8 :: row where
  "pitstop_7_8 =
     [''raceId'' \<mapsto> ''7'', ''driverId'' \<mapsto> ''8'', ''milliseconds'' \<mapsto> ''21345'',
      ''lap'' \<mapsto> ''5'']"

definition pitstop_1_11 :: row where
  "pitstop_1_11 =
     [''raceId'' \<mapsto> ''1'', ''driverId'' \<mapsto> ''11'', ''milliseconds'' \<mapsto> ''21345'',
      ''lap'' \<mapsto> ''5'']"

text \<open>The same tables with a second driver, who has no result row in race 1.\<close>

definition driver_CD :: row where
  "driver_CD = [''driverId'' \<mapsto> ''11'', ''forename'' \<mapsto> ''C'', ''surname'' \<mapsto> ''D'']"

definition two_driver_tables :: tables where
  "two_driver_tables =
     load_tables [race_GP] [driver_AB, driver_CD] [constructor_Team] [result_1_10]"

text \<open>The same tables with a race row that has no date column.\<close>

definition race_undated :: row where
  "race_undated = [''raceId'' \<mapsto> ''1'', ''name'' \<mapsto> ''GP'']"

definition undated_tables :: tables where
  "undated_tables = load_tables [race_undated] [driver_AB] [constructor_Team] [result_1_10]"

definition observation_undated :: observation where
  "observation_undated =
     \<lparr> obs_y = Fin 21345, obs_x = NewDate None, obs_race = Some ''GP'',
       obs_driver = ''A B'', obs_constructor = Some ''Team'', obs_lap = Some ''5'' \<rparr>"

text \<open>Pit stops at the threshold of the filter, and one with the CSV's null marker.\<close>

definition pitstop_120000 :: row where
  "pitstop_120000 =
     [''raceId'' \<mapsto> ''1'', ''driverId'' \<mapsto> ''10'', ''milliseconds'' \<mapsto> ''120000'',
      ''lap'' \<mapsto> ''6'']"

definition pitstop_119999 :: row where
  "pitstop_119999 =
     [''raceId'' \<mapsto> ''1'', ''driverId'' \<mapsto> ''10'', ''milliseconds'' \<mapsto> ''119999'',
      ''lap'' \<mapsto> ''7'']"

definition observation_119999 :: observation where
  "observation_119999 =
     \<lparr> obs_y = Fin 119999, obs_x = NewDate (Some ''2020-01-01''), obs_race = Some ''GP'',
       obs_driver = ''A B'', obs_constructor = Some ''Team'', obs_lap = Some ''7'' \<rparr>"

definition pitstop_null :: row where
  "pitstop_null =
     [''raceId'' \<mapsto> ''1'', ''driverId'' \<mapsto> ''10'', ''milliseconds'' \<mapsto> [CHR 0x5C, CHR ''N''],
      ''lap'' \<mapsto> ''8'']"

text \<open>The state of the script for the example tables, before the axes are defined.\<close>

definition example_state :: script_state where
  "example_state =
     \<lparr> st_tables = example_tables,
       st_data = [observation_1_10],
       st_domain = \<lparr> dom_x = [NewDate (Some ''2020-01-01''), NewDate (Some ''2020-01-01'')],
                      dom_y = [Fin 21345, Fin 21345] \<rparr>,
       st_range = range0 \<rparr>"

section \<open>Evaluating the examples\<close>

lemmas Number_defs = Number_js_def trim_ws_def is_ws_def radix_prefix_def signed_decimal_def
  unsigned_decimal_def is_digit_in_def digit_value_def exponent_part_def scale10_def
  digits_value_def jsneg_def all_digits_def

lemmas row_defs = race_GP_def driver_AB_def driver_CD_def result_1_10_def constructor_Team_def
  race_undated_def pitstop_1_10_def pitstop_7_8_def pitstop_1_11_def pitstop_120000_def
  pitstop_119999_def pitstop_null_def

lemmas join_defs = load_tables_def group1_def group2_def group_add_def map_get_def index0_def
  getRace_def getDriver_def getContructor_def result_constructorId_def opt_field_def
  String_js_def

lemma Number_21345: "Number_js (Some ''21345'') = Fin 21345"
  by (simp add: Number_defs)

lemma Number_120000: "Number_js (Some ''120000'') = Fin 120000"
  by (simp add: Number_defs)

lemma Number_119999: "Number_js (Some ''119999'') = Fin 119999"
  by (simp add: Number_defs)

lemma Number_null_marker: "Number_js (Some [CHR 0x5C, CHR ''N'']) = NaN"
  by (simp add: Number_defs)

lemma Date_parse_2020: "Date_parse_ymd ''2020-01-01'' = Fin 1577836800000"
  by (simp add: Date_parse_ymd_def all_digits_def is_digit_in_def digit_value_def
      digits_value_def days_in_month_def days_from_epoch_def)

lemma observe_1_10: "observe example_tables pitstop_1_10 = Inr observation_1_10"
  by (simp add: observe_def join_defs example_tables_def row_defs Number_21345
      observation_1_10_def)

lemma observe_119999: "observe example_tables pitstop_119999 = Inr observation_119999"
  by (simp add: observe_def join_defs example_tables_def row_defs Number_119999
      observation_119999_def)

lemma observe_undated: "observe undated_tables pitstop_1_10 = Inr observation_undated"
  by (simp add: observe_def join_defs undated_tables_def row_defs Number_21345
      observation_undated_def)

lemma keep_1_10: "keep pitstop_1_10"
  by (simp add: keep_def pitstop_1_10_def Number_21345)

lemma keep_119999: "keep pitstop_119999"
  by (simp add: keep_def pitstop_119999_def Number_119999)

lemma not_keep_120000: "\<not> keep pitstop_120000"
  by (simp add: keep_def pitstop_120000_def Number_120000)

lemma not_keep_null: "\<not> keep pitstop_null"
  by (simp add: keep_def pitstop_null_def Number_null_marker)

section \<open>Facts about the model\<close>

lemma js_error_unique: "(e::js_error) = e'"
  by (cases e; cases e') simp

lemma jslt_irrefl: "\<not> jslt a a"
  by (cases a) simp_all

lemma group1_snoc: "group1 (vs @ [v]) keyof = group_add keyof (group1 vs keyof) v"
  by (simp add: group1_def)

text \<open>What \<open>get\<close> returns on a grouped table: the rows with that key, in input order.\<close>

lemma group1_get:
  "group1 vs keyof k =
     (if k \<in> keyof ` set vs then Some (filter (\<lambda>v. keyof v = k) vs) else None)"
proof (induction vs rule: rev_induct)
  case Nil
  show ?case by (simp add: group1_def)
next
  case (snoc v vs)
  show ?case
  proof (cases "keyof v = k")
    case True
    with snoc show ?thesis
      by (auto simp: group1_snoc group_add_def filter_empty_conv image_iff
          split: option.splits)
  next
    case False
    with snoc show ?thesis
      by (auto simp: group1_snoc group_add_def split: option.splits)
  qed
qed

lemma group1_nonempty: "group1 vs keyof k \<noteq> Some []"
  by (auto simp: group1_get filter_empty_conv)

lemma group2_get:
  "group2 vs keyof1 keyof2 k1 =
     (if k1 \<in> keyof1 ` set vs
      then Some (group1 (filter (\<lambda>v. keyof1 v = k1) vs) keyof2) else None)"
  by (simp add: group2_def group1_get)

text \<open>Each missing link makes the resolution of a pit stop throw.\<close>

lemma observe_no_race:
  "races T (String_js (d ''raceId'')) = None \<Longrightarrow> observe T d = Inl TypeError"
  by (simp add: observe_def getRace_def)

lemma observe_no_driver:
  "drivers T (String_js (d ''driverId'')) = None \<Longrightarrow> observe T d = Inl TypeError"
  by (simp add: observe_def getDriver_def js_error_unique [of _ TypeError] split: sum.splits)

lemma getContructor_no_results:
  "results T raceId = None \<Longrightarrow> getContructor T raceId driverId = Inl TypeError"
  by (simp add: getContructor_def result_constructorId_def map_get_def)

lemma getContructor_no_result_row:
  "results T raceId = Some by_driver \<Longrightarrow> by_driver driverId = None \<Longrightarrow>
     getContructor T raceId driverId = Inl TypeError"
  by (simp add: getContructor_def result_constructorId_def)

lemma observe_no_results:
  "results T (String_js (d ''raceId'')) = None \<Longrightarrow> observe T d = Inl TypeError"
  by (simp add: observe_def getContructor_no_results js_error_unique [of _ TypeError]
      split: sum.splits)

lemma observe_no_result_row:
  "results T (String_js (d ''raceId'')) = Some by_driver \<Longrightarrow>
   by_driver (String_js (d ''driverId'')) = None \<Longrightarrow> observe T d = Inl TypeError"
  by (simp add: observe_def getContructor_no_result_row js_error_unique [of _ TypeError]
      split: sum.splits)

lemma map_js_Inr: "map_js f vs = Inr ws \<Longrightarrow> list_all2 (\<lambda>v w. f v = Inr w) vs ws"
proof (induction vs arbitrary: ws)
  case Nil
  then show ?case by simp
next
  case (Cons v vs)
  then show ?case by (auto split: sum.splits)
qed

lemma map_js_throws: "v \<in> set vs \<Longrightarrow> f v = Inl e \<Longrightarrow> map_js f vs = Inl TypeError"
  by (induction vs) (auto simp: js_error_unique [of _ TypeError] split: sum.splits)

lemma data_Inr:
  "data T ps = Inr obs \<Longrightarrow> list_all2 (\<lambda>d ob. observe T d = Inr ob) (filter keep ps) obs"
  by (simp add: data_def map_js_Inr)

lemma keep_iff:
  "keep d \<longleftrightarrow> Number_js (d ''milliseconds'') = NegInf
     \<or> (\<exists>v. Number_js (d ''milliseconds'') = Fin v \<and> v < 120000)"
  by (cases "Number_js (d ''milliseconds'')") (simp_all add: keep_def)

lemma not_keep_iff:
  "\<not> keep d \<longleftrightarrow> Number_js (d ''milliseconds'') = NaN
     \<or> Number_js (d ''milliseconds'') = PosInf
     \<or> (\<exists>v. Number_js (d ''milliseconds'') = Fin v \<and> 120000 \<le> v)"
  by (cases "Number_js (d ''milliseconds'')") (simp_all add: keep_def not_less)

lemma observe_y: "observe T d = Inr ob \<Longrightarrow> obs_y ob = Number_js (d ''milliseconds'')"
  by (auto simp: observe_def split: sum.splits option.splits)

lemma data_from_kept:
  assumes "data T ps = Inr obs" and "ob \<in> set obs"
  shows "\<exists>d. d \<in> set ps \<and> keep d \<and> observe T d = Inr ob"
proof -
  from assms(1) have "list_all2 (\<lambda>d ob. observe T d = Inr ob) (filter keep ps) obs"
    by (rule data_Inr)
  with assms(2) obtain d where "d \<in> set (filter keep ps)" and "observe T d = Inr ob"
    unfolding list_all2_conv_all_nth in_set_conv_nth by metis
  then show ?thesis by auto
qed

lemma data_y:
  assumes "data T ps = Inr obs" and "ob \<in> set obs"
  shows "jslt (obs_y ob) (Fin 120000)"
proof -
  from assms obtain d where "keep d" and "observe T d = Inr ob"
    using data_from_kept by blast
  then show ?thesis by (auto simp: keep_def dest: observe_y)
qed

lemma minIndex_single: "minIndex [v] valueof = (if valueof v = NaN then - 1 else 0)"
  by (simp add: minIndex_def jsge_def jslt_irrefl)

lemma maxIndex_single: "maxIndex [v] valueof = (if valueof v = NaN then - 1 else 0)"
  by (simp add: maxIndex_def jsge_def jslt_irrefl)

lemma domain_empty: "domain parse [] = Inl TypeError"
  by (simp add: domain_def extent_of_def minIndex_def at_index_def)

lemma extent_single:
  "timeValue parse (obs_x ob) \<noteq> NaN \<Longrightarrow> obs_y ob \<noteq> NaN \<Longrightarrow>
    extent_of parse [ob] = \<lparr> minX = Some ob, maxX = Some ob, minY = Some ob, maxY = Some ob \<rparr>"
  by (simp add: extent_of_def minIndex_single maxIndex_single at_index_def)

lemma domain_single:
  "timeValue parse (obs_x ob) \<noteq> NaN \<Longrightarrow> obs_y ob \<noteq> NaN \<Longrightarrow>
    domain parse [ob] = Inr \<lparr> dom_x = [obs_x ob, obs_x ob], dom_y = [obs_y ob, obs_y ob] \<rparr>"
  by (simp add: domain_def extent_single)

lemma domain_single_invalid:
  "timeValue parse (obs_x ob) = NaN \<or> obs_y ob = NaN \<Longrightarrow> domain parse [ob] = Inl TypeError"
  by (auto simp: domain_def extent_of_def minIndex_single maxIndex_single at_index_def
      split: option.splits)

lemma range0_values: "range0 = \<lparr> range_x = [0, 720], range_y = [0, 460] \<rparr>"
  by (simp add: range0_def innerWidth_def innerHeight_def width_def height_def margin_def)

section \<open>Missing relations\<close>

text \<open>
  C1. The claim: a pit stop whose race, driver or result row is in no lookup table still
  yields an observation, with the relational labels absent, and nothing is thrown.
  On the code every such pit stop throws: with race and driver both unknown, with the
  driver unknown, and with race and driver known but no result row for the pair. One
  such pit stop makes the whole of \<open>data\<close> throw.
\<close>

theorem missing_relation_throws:
  "observe example_tables pitstop_7_8 = Inl TypeError
   \<and> observe example_tables pitstop_1_11 = Inl TypeError
   \<and> observe two_driver_tables pitstop_1_11 = Inl TypeError
   \<and> data example_tables [pitstop_1_10, pitstop_7_8] = Inl TypeError"
proof -
  have a: "observe example_tables pitstop_7_8 = Inl TypeError"
    by (rule observe_no_race) (simp add: join_defs example_tables_def row_defs)
  have b: "observe example_tables pitstop_1_11 = Inl TypeError"
    by (rule observe_no_driver) (simp add: join_defs example_tables_def row_defs)
  have c: "observe two_driver_tables pitstop_1_11 = Inl TypeError"
    by (simp add: observe_def join_defs two_driver_tables_def row_defs)
  have "keep pitstop_7_8"
    by (simp add: keep_def pitstop_7_8_def Number_21345)
  then have d: "data example_tables [pitstop_1_10, pitstop_7_8] = Inl TypeError"
    by (simp add: data_def keep_1_10 observe_1_10 a)
  from a b c d show ?thesis by simp
qed

section \<open>Looking up a key that is not in an index\<close>

text \<open>
  C2, as stated: looking up a key that is not in a built index returns the empty sequence.
  It fails: race 7 is not in the example races, and the lookup returns \<open>undefined\<close>.
\<close>

theorem absent_key_lookup_undefined:
  "races example_tables ''7'' = None \<and> races example_tables ''7'' \<noteq> Some []"
  by (simp add: join_defs example_tables_def row_defs)

text \<open>
  C2, amended: for every key not present in a built index, on either level, a lookup of
  that key returns \<open>undefined\<close>; no lookup returns the empty sequence.
\<close>

theorem absent_key_undefined:
  "k \<notin> keyof ` set vs \<Longrightarrow>
     group1 vs keyof k = None \<and> group2 vs keyof keyof2 k = None
     \<and> map_get (group1 vs keyof) (Some k) = None
     \<and> group1 vs keyof k' \<noteq> Some []"
  using group1_nonempty [of vs keyof k'] by (simp add: group1_get group2_get map_get_def)

theorem absent_key_undefined_witness:
  "''7'' \<notin> (\<lambda>d. String_js (d ''raceId'')) ` set [race_GP]
   \<and> group1 [race_GP] (\<lambda>d. String_js (d ''raceId'')) ''7'' = None
   \<and> group2 [race_GP] (\<lambda>d. String_js (d ''raceId'')) (\<lambda>d. String_js (d ''driverId'')) ''7''
       = None
   \<and> map_get (group1 [race_GP] (\<lambda>d. String_js (d ''raceId''))) (Some ''7'') = None
   \<and> group1 [race_GP] (\<lambda>d. String_js (d ''raceId'')) ''1'' \<noteq> Some []"
proof -
  have h: "''7'' \<notin> (\<lambda>d. String_js (d ''raceId'')) ` set [race_GP]"
    by (simp add: String_js_def race_GP_def)
  from absent_key_undefined [OF h, of "\<lambda>d. String_js (d ''driverId'')" "''1''"] h
  show ?thesis by simp
qed

section \<open>The filter\<close>

text \<open>
  C3. The claim: a pit stop is excluded from the observation sequence when its milliseconds
  value is 120000 or more, and included, subject to no other condition, when it is 119999
  or less. The filter itself does this, for finite and infinite values alike
  (\<open>keep_iff\<close>, \<open>not_keep_iff\<close>), and the observations that \<open>data\<close> returns are those of
  the pit stops that pass it (\<open>data_Inr\<close>). The inclusion fails on the code all the same.
  On the example tables the pit stop of 120000 milliseconds is dropped and the one of
  119999 is observed. The pit stop of 21345 milliseconds is observed when it is alone; it
  passes the filter but no observation sequence is built when a second retained pit stop
  has no race in the tables; and a pit stop of 21345 milliseconds whose own driver is in
  no table is in no observation sequence either.
\<close>

theorem kept_pitstop_not_observed:
  "data example_tables [pitstop_120000, pitstop_119999] = Inr [observation_119999]
   \<and> data example_tables [pitstop_1_10] = Inr [observation_1_10]
   \<and> Number_js (pitstop_1_10 ''milliseconds'') = Fin 21345
   \<and> keep pitstop_1_10
   \<and> filter keep [pitstop_1_10, pitstop_7_8] = [pitstop_1_10, pitstop_7_8]
   \<and> data example_tables [pitstop_1_10, pitstop_7_8] = Inl TypeError
   \<and> Number_js (pitstop_1_11 ''milliseconds'') = Fin 21345
   \<and> keep pitstop_1_11
   \<and> data example_tables [pitstop_1_11] = Inl TypeError"
proof -
  have edge: "data example_tables [pitstop_120000, pitstop_119999] = Inr [observation_119999]"
    by (simp add: data_def not_keep_120000 keep_119999 observe_119999)
  have alone: "data example_tables [pitstop_1_10] = Inr [observation_1_10]"
    by (simp add: data_def keep_1_10 observe_1_10)
  have n1: "Number_js (pitstop_1_10 ''milliseconds'') = Fin 21345"
    by (simp add: pitstop_1_10_def Number_21345)
  have n2: "Number_js (pitstop_1_11 ''milliseconds'') = Fin 21345"
    by (simp add: pitstop_1_11_def Number_21345)
  have k78: "keep pitstop_7_8"
    by (simp add: keep_def pitstop_7_8_def Number_21345)
  have k111: "keep pitstop_1_11"
    by (simp add: keep_def n2)
  have kept: "filter keep [pitstop_1_10, pitstop_7_8] = [pitstop_1_10, pitstop_7_8]"
    by (simp add: keep_1_10 k78)
  have "observe example_tables pitstop_7_8 = Inl TypeError"
    by (rule observe_no_race) (simp add: join_defs example_tables_def row_defs)
  then have both: "data example_tables [pitstop_1_10, pitstop_7_8] = Inl TypeError"
    by (simp add: data_def keep_1_10 k78 observe_1_10)
  have "observe example_tables pitstop_1_11 = Inl TypeError"
    by (rule observe_no_driver) (simp add: join_defs example_tables_def row_defs)
  then have own: "data example_tables [pitstop_1_11] = Inl TypeError"
    by (simp add: data_def k111)
  from edge alone n1 keep_1_10 kept both n2 k111 own show ?thesis by simp
qed

section \<open>The example chain\<close>

text \<open>
  C4. With the one-row tables of the example, the pit stop of driver 10 in race 1 with
  21345 milliseconds at lap 5 resolves to the observation with y 21345, x the date built
  from 2020-01-01, race GP, driver A B, constructor Team and lap 5.
\<close>

theorem example_chain_observation:
  "data (load_tables
           [[''raceId'' \<mapsto> ''1'', ''name'' \<mapsto> ''GP'', ''date'' \<mapsto> ''2020-01-01'']]
           [[''driverId'' \<mapsto> ''10'', ''forename'' \<mapsto> ''A'', ''surname'' \<mapsto> ''B'']]
           [[''constructorId'' \<mapsto> ''99'', ''name'' \<mapsto> ''Team'']]
           [[''raceId'' \<mapsto> ''1'', ''driverId'' \<mapsto> ''10'', ''constructorId'' \<mapsto> ''99'']])
        [[''raceId'' \<mapsto> ''1'', ''driverId'' \<mapsto> ''10'', ''milliseconds'' \<mapsto> ''21345'',
          ''lap'' \<mapsto> ''5'']]
   = Inr [\<lparr> obs_y = Fin 21345, obs_x = NewDate (Some ''2020-01-01''), obs_race = Some ''GP'',
            obs_driver = ''A B'', obs_constructor = Some ''Team'', obs_lap = Some ''5'' \<rparr>]"
  using observe_1_10 keep_1_10
  by (simp add: data_def example_tables_def row_defs observation_1_10_def)

section \<open>The extent\<close>

text \<open>
  C5, as stated: on a single observation the extent returns that observation as minimum
  and maximum. It fails when the race row has no date: the pit stop resolves to an
  observation whose date is invalid, no index is found for it, and the domain throws.
\<close>

theorem single_undated_domain_throws:
  "data undated_tables [pitstop_1_10] = Inr [observation_undated]
   \<and> domain Date_parse_ymd [observation_undated] = Inl TypeError"
proof -
  have "data undated_tables [pitstop_1_10] = Inr [observation_undated]"
    by (simp add: data_def keep_1_10 observe_undated)
  moreover have "domain Date_parse_ymd [observation_undated] = Inl TypeError"
    by (rule domain_single_invalid) (simp add: timeValue_def observation_undated_def)
  ultimately show ?thesis by simp
qed

text \<open>
  C5, amended: the domain of an empty observation sequence throws; on a single observation
  whose date is valid and whose y is not NaN, that observation is the minimum and the
  maximum on both axes.
\<close>

theorem extent_empty_and_single:
  "domain parse [] = Inl TypeError
   \<and> (timeValue parse (obs_x ob) \<noteq> NaN \<and> obs_y ob \<noteq> NaN \<longrightarrow>
        extent_of parse [ob]
          = \<lparr> minX = Some ob, maxX = Some ob, minY = Some ob, maxY = Some ob \<rparr>
        \<and> domain parse [ob]
          = Inr \<lparr> dom_x = [obs_x ob, obs_x ob], dom_y = [obs_y ob, obs_y ob] \<rparr>)"
  by (simp add: domain_empty extent_single domain_single)

theorem extent_empty_and_single_witness:
  "timeValue Date_parse_ymd (obs_x observation_1_10) \<noteq> NaN \<and> obs_y observation_1_10 \<noteq> NaN
   \<and> domain Date_parse_ymd [] = Inl TypeError
   \<and> extent_of Date_parse_ymd [observation_1_10]
       = \<lparr> minX = Some observation_1_10, maxX = Some observation_1_10,
           minY = Some observation_1_10, maxY = Some observation_1_10 \<rparr>
   \<and> domain Date_parse_ymd [observation_1_10]
       = Inr \<lparr> dom_x = [NewDate (Some ''2020-01-01''), NewDate (Some ''2020-01-01'')],
               dom_y = [Fin 21345, Fin 21345] \<rparr>"
proof -
  have h: "timeValue Date_parse_ymd (obs_x observation_1_10) \<noteq> NaN
           \<and> obs_y observation_1_10 \<noteq> NaN"
    by (simp add: timeValue_def observation_1_10_def Date_parse_2020)
  have x: "obs_x observation_1_10 = NewDate (Some ''2020-01-01'')"
    and y: "obs_y observation_1_10 = Fin 21345"
    by (simp_all add: observation_1_10_def)
  from extent_empty_and_single [of Date_parse_ymd observation_1_10] h
  show ?thesis unfolding x y by simp
qed

section \<open>Unparseable milliseconds\<close>

text \<open>
  C10. A pit stop whose milliseconds field converts to NaN fails the filter, so it is not
  among the retained pit stops; when \<open>data\<close> returns, no observation carries a NaN
  duration into the domain computation.
\<close>

theorem nan_milliseconds_excluded:
  assumes "Number_js (d ''milliseconds'') = NaN" and "data T ps = Inr obs"
  shows "\<not> keep d \<and> d \<notin> set (filter keep ps)
    \<and> (\<forall>ob \<in> set obs. obs_y ob \<noteq> NaN \<and> jslt (obs_y ob) (Fin 120000))"
proof -
  from assms(1) have "\<not> keep d"
    by (simp add: keep_def)
  moreover have "obs_y ob \<noteq> NaN \<and> jslt (obs_y ob) (Fin 120000)" if "ob \<in> set obs" for ob
  proof -
    from assms(2) that have lt: "jslt (obs_y ob) (Fin 120000)"
      by (rule data_y)
    then have "obs_y ob \<noteq> NaN"
      by auto
    with lt show ?thesis by simp
  qed
  ultimately show ?thesis by simp
qed

theorem nan_milliseconds_excluded_witness:
  "Number_js (pitstop_null ''milliseconds'') = NaN
   \<and> data example_tables [pitstop_null, pitstop_1_10] = Inr [observation_1_10]
   \<and> \<not> keep pitstop_null
   \<and> pitstop_null \<notin> set (filter keep [pitstop_null, pitstop_1_10])
   \<and> obs_y observation_1_10 \<noteq> NaN \<and> jslt (obs_y observation_1_10) (Fin 120000)"
proof -
  have m: "observation_1_10 \<in> set [observation_1_10]"
    by simp
  have h1: "Number_js (pitstop_null ''milliseconds'') = NaN"
    by (simp add: pitstop_null_def Number_null_marker)
  have h2: "data example_tables [pitstop_null, pitstop_1_10] = Inr [observation_1_10]"
    by (simp add: data_def not_keep_null keep_1_10 observe_1_10)
  from nan_milliseconds_excluded [of pitstop_null example_tables
      "[pitstop_null, pitstop_1_10]" "[observation_1_10]"] h1 h2 m
  show ?thesis by blast
qed

section \<open>What the later statements change\<close>

text \<open>
  C9, as stated: no statement after construction changes the range, so the dots are placed
  with the range as constructed. It fails: for the example the range of y is constructed
  as 0 to 460, and the y scale of the dot is built from 460 to 0, which is what the
  variable holds once the axes are defined.
\<close>

theorem dots_see_reversed_range:
  "script Date_parse_ymd example_tables [pitstop_1_10]
     = Inr (fst (define_axes example_state), fst (draw_dots (snd (define_axes example_state))),
            snd (define_axes example_state))
   \<and> range_y (st_range example_state) = [0, 460]
   \<and> range_y (st_range (snd (define_axes example_state))) = [460, 0]
   \<and> map scale_range (map cy_scale (fst (draw_dots (snd (define_axes example_state)))))
       = [[460, 0]]"
proof -
  have d: "data example_tables [pitstop_1_10] = Inr [observation_1_10]"
    by (simp add: data_def keep_1_10 observe_1_10)
  have "domain Date_parse_ymd [observation_1_10]
          = Inr \<lparr> dom_x = [obs_x observation_1_10, obs_x observation_1_10],
                  dom_y = [obs_y observation_1_10, obs_y observation_1_10] \<rparr>"
    by (rule domain_single) (simp_all add: timeValue_def observation_1_10_def Date_parse_2020)
  then have e: "domain Date_parse_ymd [observation_1_10] = Inr (st_domain example_state)"
    by (simp add: example_state_def observation_1_10_def)
  have s: "script Date_parse_ymd example_tables [pitstop_1_10]
     = Inr (fst (define_axes example_state), fst (draw_dots (snd (define_axes example_state))),
            snd (define_axes example_state))"
    by (simp add: script_def d e example_state_def draw_dots_def Let_def split: prod.splits)
  have r: "range_y (st_range example_state) = [0, 460]"
    by (simp add: example_state_def range0_values)
  have a: "range_y (st_range (snd (define_axes example_state))) = [460, 0]"
    by (simp add: define_axes_def Let_def example_state_def range0_values)
  have c: "map scale_range (map cy_scale (fst (draw_dots (snd (define_axes example_state)))))
       = [[460, 0]]"
    by (simp add: draw_dots_def define_axes_def Let_def yScale_def example_state_def
        range0_values)
  from s r a c show ?thesis by simp
qed

text \<open>
  C9, amended: defining the axes and drawing the dots leave the indices, the observation
  sequence, the domain and the range of x unchanged; defining the axes reverses the range
  of y in place, so the y axis and the y scale of every dot are built from the reversed
  range.
\<close>

theorem axes_reverse_range_y:
  assumes "define_axes s = (axes, s1)" and "draw_dots s1 = (dots, s2)"
  shows "st_tables s2 = st_tables s \<and> st_data s2 = st_data s \<and> st_domain s2 = st_domain s
    \<and> range_x (st_range s2) = range_x (st_range s)
    \<and> range_y (st_range s2) = rev (range_y (st_range s))
    \<and> scale_range (xAxis axes) = range_x (st_range s)
    \<and> scale_range (yAxis axes) = rev (range_y (st_range s))
    \<and> (\<forall>c \<in> set dots. scale_range (cx_scale c) = range_x (st_range s)
                      \<and> scale_range (cy_scale c) = rev (range_y (st_range s)))"
  using assms
  by (auto simp: define_axes_def draw_dots_def Let_def xScale_def yScale_def)

theorem axes_reverse_range_y_witness:
  "define_axes example_state = (fst (define_axes example_state), snd (define_axes example_state))
   \<and> draw_dots (snd (define_axes example_state))
       = (fst (draw_dots (snd (define_axes example_state))), snd (define_axes example_state))
   \<and> st_data (snd (define_axes example_state)) = [observation_1_10]
   \<and> range_x (st_range (snd (define_axes example_state))) = [0, 720]
   \<and> range_y (st_range (snd (define_axes example_state))) = [460, 0]
   \<and> scale_range (yAxis (fst (define_axes example_state))) = [460, 0]
   \<and> map scale_range (map cx_scale (fst (draw_dots (snd (define_axes example_state)))))
       = [[0, 720]]
   \<and> map scale_range (map cy_scale (fst (draw_dots (snd (define_axes example_state)))))
       = [[460, 0]]"
proof -
  obtain c where dots: "fst (draw_dots (snd (define_axes example_state))) = [c]"
    by (simp add: draw_dots_def define_axes_def Let_def example_state_def)
  have m: "c \<in> set (fst (draw_dots (snd (define_axes example_state))))"
    by (simp add: dots)
  have l: "map scale_range (map cx_scale (fst (draw_dots (snd (define_axes example_state)))))
             = [scale_range (cx_scale c)]"
    "map scale_range (map cy_scale (fst (draw_dots (snd (define_axes example_state)))))
             = [scale_range (cy_scale c)]"
    by (simp_all add: dots)
  have h1: "define_axes example_state
              = (fst (define_axes example_state), snd (define_axes example_state))"
    by simp
  have h2: "draw_dots (snd (define_axes example_state))
              = (fst (draw_dots (snd (define_axes example_state))),
                 snd (define_axes example_state))"
    by (simp add: draw_dots_def)
  have v: "st_data example_state = [observation_1_10]"
    "range_x (st_range example_state) = [0, 720]"
    "rev (range_y (st_range example_state)) = [460, 0]"
    by (simp_all add: example_state_def range0_values)
  from axes_reverse_range_y [OF h1 h2] h1 h2 m show ?thesis
    unfolding v l by blast
qed

section \<open>The linear scale: interpolation and nice boundaries\<close>

lemma nice_to_lower: "0 < step \<Longrightarrow> fst (nice_to step (a, b)) \<le> a"
proof -
  assume pos: "0 < step"
  have "of_int \<lfloor>a / step\<rfloor> * step \<le> a / step * step"
    using pos by (intro mult_right_mono) simp_all
  also from pos have "a / step * step = a"
    by simp
  finally show ?thesis by (simp add: nice_to_def)
qed

lemma nice_to_upper: "0 < step \<Longrightarrow> b \<le> snd (nice_to step (a, b))"
proof -
  assume pos: "0 < step"
  from pos have "b = b / step * step"
    by simp
  also have "\<dots> \<le> of_int \<lceil>b / step\<rceil> * step"
    using pos by (intro mult_right_mono) simp_all
  finally show ?thesis by (simp add: nice_to_def)
qed

text \<open>
  C7. For domain 0 to 100 and range 0 to 800 the scale without the nice step maps 50 to
  400. With the nice step, for every positive step, both boundaries of the returned domain
  are whole multiples of the step, the returned domain contains 0 and 100, and 0 and 100
  are mapped into the range 0 to 800.
\<close>

theorem linear_0_100_to_0_800:
  "apply_linear (makeLinear un_niced (0, 100) (0, 800)) 50 = 400
   \<and> (0 < step \<longrightarrow>
        (\<exists>i j :: int. lin_domain (makeLinear (nice_to step) (0, 100) (0, 800))
                        = (of_int i * step, of_int j * step))
        \<and> fst (lin_domain (makeLinear (nice_to step) (0, 100) (0, 800))) \<le> 0
        \<and> 100 \<le> snd (lin_domain (makeLinear (nice_to step) (0, 100) (0, 800)))
        \<and> 0 \<le> apply_linear (makeLinear (nice_to step) (0, 100) (0, 800)) 0
        \<and> apply_linear (makeLinear (nice_to step) (0, 100) (0, 800)) 0 \<le> 800
        \<and> 0 \<le> apply_linear (makeLinear (nice_to step) (0, 100) (0, 800)) 100
        \<and> apply_linear (makeLinear (nice_to step) (0, 100) (0, 800)) 100 \<le> 800)"
proof -
  have plain: "apply_linear (makeLinear un_niced (0, 100) (0, 800)) 50 = 400"
    by (simp add: apply_linear_def makeLinear_def un_niced_def)
  have niced: "(\<exists>i j :: int. lin_domain (makeLinear (nice_to step) (0, 100) (0, 800))
                        = (of_int i * step, of_int j * step))
        \<and> fst (lin_domain (makeLinear (nice_to step) (0, 100) (0, 800))) \<le> 0
        \<and> 100 \<le> snd (lin_domain (makeLinear (nice_to step) (0, 100) (0, 800)))
        \<and> 0 \<le> apply_linear (makeLinear (nice_to step) (0, 100) (0, 800)) 0
        \<and> apply_linear (makeLinear (nice_to step) (0, 100) (0, 800)) 0 \<le> 800
        \<and> 0 \<le> apply_linear (makeLinear (nice_to step) (0, 100) (0, 800)) 100
        \<and> apply_linear (makeLinear (nice_to step) (0, 100) (0, 800)) 100 \<le> 800"
    if pos: "0 < step"
  proof -
    define hi where "hi = of_int \<lceil>100 / step\<rceil> * step"
    have dom: "lin_domain (makeLinear (nice_to step) (0, 100) (0, 800)) = (0, hi)"
      by (simp add: makeLinear_def nice_to_def hi_def)
    have hi: "100 \<le> hi"
      using nice_to_upper [OF pos, of 100 0] by (simp add: nice_to_def hi_def)
    have mult: "\<exists>i j :: int. (0, hi) = (of_int i * step, of_int j * step)"
    proof (intro exI)
      show "(0, hi) = (of_int 0 * step, of_int \<lceil>100 / step\<rceil> * step)"
        by (simp add: hi_def)
    qed
    have sc: "makeLinear (nice_to step) (0, 100) (0, 800)
                = \<lparr> lin_domain = (0, hi), lin_range = (0, 800) \<rparr>"
      by (simp add: makeLinear_def nice_to_def hi_def)
    from hi have at0: "apply_linear (makeLinear (nice_to step) (0, 100) (0, 800)) 0 = 0"
      by (simp add: sc apply_linear_def)
    from hi have at100: "apply_linear (makeLinear (nice_to step) (0, 100) (0, 800)) 100
                     = 100 / hi * 800"
      by (simp add: sc apply_linear_def)
    from hi have "0 \<le> 100 / hi" and "100 / hi \<le> 1"
      by simp_all
    then have b: "0 \<le> 100 / hi * 800" and c: "100 / hi * 800 \<le> 800"
      by simp_all
    from dom hi mult at0 at100 b c show ?thesis by simp
  qed
  from plain niced show ?thesis by blast
qed

theorem linear_0_100_to_0_800_witness:
  "0 < (10::real)
   \<and> apply_linear (makeLinear un_niced (0, 100) (0, 800)) 50 = 400
   \<and> lin_domain (makeLinear (nice_to 10) (0, 100) (0, 800)) = (0, 100)
   \<and> (\<exists>i j :: int. lin_domain (makeLinear (nice_to 10) (0, 100) (0, 800))
                        = (of_int i * 10, of_int j * 10))
   \<and> 0 \<le> apply_linear (makeLinear (nice_to 10) (0, 100) (0, 800)) 100
   \<and> apply_linear (makeLinear (nice_to 10) (0, 100) (0, 800)) 100 \<le> 800"
proof -
  have h: "0 < (10::real)"
    by simp
  have v: "lin_domain (makeLinear (nice_to 10) (0, 100) (0, 800)) = (0, 100)"
    by (simp add: makeLinear_def nice_to_def)
  from linear_0_100_to_0_800 [of 10] h v show ?thesis by blast
qed

text \<open>
  C8. The scale built with the range swapped has the same domain as the scale built with
  the range as given, and between any two points it rises by the negative of what that
  scale rises. The range is kept as passed: when the domain is not a single point, its
  start is mapped to the first endpoint of the range and its end to the second.
\<close>

theorem swapped_range_negates_slope:
  "lin_domain (makeLinear nice (a, b) (e, s)) = lin_domain (makeLinear nice (a, b) (s, e))
   \<and> apply_linear (makeLinear nice (a, b) (e, s)) v
       - apply_linear (makeLinear nice (a, b) (e, s)) u
     = - (apply_linear (makeLinear nice (a, b) (s, e)) v
          - apply_linear (makeLinear nice (a, b) (s, e)) u)
   \<and> lin_range (makeLinear nice (a, b) (s, e)) = (s, e)
   \<and> (fst (nice (a, b)) \<noteq> snd (nice (a, b)) \<longrightarrow>
        apply_linear (makeLinear nice (a, b) (s, e)) (fst (nice (a, b))) = s
        \<and> apply_linear (makeLinear nice (a, b) (s, e)) (snd (nice (a, b))) = e)"
proof -
  have slope: "apply_linear (makeLinear nice (a, b) (e, s)) v
       - apply_linear (makeLinear nice (a, b) (e, s)) u
     = - (apply_linear (makeLinear nice (a, b) (s, e)) v
          - apply_linear (makeLinear nice (a, b) (s, e)) u)"
  proof (cases "snd (nice (a, b)) = fst (nice (a, b))")
    case True
    then show ?thesis
      by (simp add: apply_linear_def makeLinear_def)
  next
    case False
    define tv where "tv = (v - fst (nice (a, b))) / (snd (nice (a, b)) - fst (nice (a, b)))"
    define tu where "tu = (u - fst (nice (a, b))) / (snd (nice (a, b)) - fst (nice (a, b)))"
    from False have "apply_linear (makeLinear nice (a, b) (e, s)) v = e + tv * (s - e)"
      and "apply_linear (makeLinear nice (a, b) (e, s)) u = e + tu * (s - e)"
      and "apply_linear (makeLinear nice (a, b) (s, e)) v = s + tv * (e - s)"
      and "apply_linear (makeLinear nice (a, b) (s, e)) u = s + tu * (e - s)"
      by (simp_all add: apply_linear_def makeLinear_def Let_def tv_def tu_def)
    then show ?thesis
      by (simp add: algebra_simps)
  qed
  have ends: "apply_linear (makeLinear nice (a, b) (s, e)) (fst (nice (a, b))) = s
        \<and> apply_linear (makeLinear nice (a, b) (s, e)) (snd (nice (a, b))) = e"
    if "fst (nice (a, b)) \<noteq> snd (nice (a, b))"
    using that by (simp add: apply_linear_def makeLinear_def Let_def)
  from slope ends show ?thesis
    by (simp add: makeLinear_def)
qed

theorem swapped_range_negates_slope_witness:
  "fst (un_niced (0, 100)) \<noteq> snd (un_niced (0, 100))
   \<and> apply_linear (makeLinear un_niced (0, 100) (800, 0)) 50
       - apply_linear (makeLinear un_niced (0, 100) (800, 0)) 0 = - 400
   \<and> apply_linear (makeLinear un_niced (0, 100) (0, 800)) 50
       - apply_linear (makeLinear un_niced (0, 100) (0, 800)) 0 = 400
   \<and> apply_linear (makeLinear un_niced (0, 100) (0, 800)) (fst (un_niced (0, 100))) = 0
   \<and> apply_linear (makeLinear un_niced (0, 100) (0, 800)) (snd (un_niced (0, 100))) = 800"
proof -
  have h: "fst (un_niced (0, 100)) \<noteq> snd (un_niced (0, 100))"
    by (simp add: un_niced_def)
  have p: "apply_linear (makeLinear un_niced (0, 100) (0, 800)) 50
       - apply_linear (makeLinear un_niced (0, 100) (0, 800)) 0 = 400"
    by (simp add: apply_linear_def makeLinear_def un_niced_def)
  from swapped_range_negates_slope [of un_niced 0 100 800 0 50 0] h p
  show ?thesis by simp
qed

end
